theory Spec2Isabelle
  imports Complex_Main
begin

section \<open>The player state of docs/script.js\<close>

text \<open>
  The game keeps one mutable object \<^verbatim>\<open>state\<close>. Every handler reads and writes its
  fields and returns nothing; here a handler is a function from the state before to the
  state after. JavaScript numbers are modelled as exact numbers: the counters that the code only
  ever increments or resets (clicks, auto-clickers, multiplier, prestige count, seconds
  left) and the millisecond timestamps are \<open>int\<close>, every other number is a \<open>rat\<close>, and
  \<^verbatim>\<open>Math.floor\<close> is \<open>floor\<close>. Rounding of IEEE doubles is not modelled: where a
  product of doubles is rounded just below a whole number before it is floored (with
  multiplier 3, prestige bonus 20 and a critical hit of power 15 the handler computes
  53.99999999999999 and adds 53), the exact product of the model is one higher. The
  cost rules, applied to whole numbers, are exact in both.
  \<^verbatim>\<open>Date.now()\<close> and \<^verbatim>\<open>Math.random()\<close> are arguments of the handlers that call them.
  The page elements the handlers touch are assumed to exist; writes to the page, sounds,
  toasts, the list of click times behind the clicks-per-second display and the calls of
  \<^verbatim>\<open>scheduleUpdateUI\<close> change no field of \<^verbatim>\<open>state\<close>. The calls of
  \<^verbatim>\<open>throttlePersist\<close> made by the handlers touch only the persistence variables, which
  are modelled on their own below.
\<close>

text \<open>
  \<^verbatim>\<open>state.achievementsUnlocked\<close> is an object keyed by the message text. A message is a
  fixed template filled with numbers, so a key is modelled by its template and the
  values printed into it.
\<close>

datatype achievement =
    ClickMilestone string int
  | AutoClickersReached string int
  | MultiplierReached int
  | CritChanceRaised int
  | PrestigeDone int
  | TimedStarted
  | TimedFinished rat rat
  | DailyStarted
  | DailySucceeded rat
  | BoostEnded
  | ManualSave
  | Frenzy

record daily =
  active :: bool
  target :: rat
  rewardPct :: rat
  expiresAt :: int
  claimedToday :: bool

record state =
  pseudo :: string
  score :: rat
  totalClicks :: int
  autoClickers :: int
  autoClickCost :: rat
  multiplier :: int
  multiplierCost :: rat
  critChance :: rat
  critPower :: rat
  critChanceCost :: rat
  critPowerCost :: rat
  tempBoostActive :: bool
  tempBoostEnd :: int
  tempBoostCost :: rat
  prestigeCount :: int
  prestigeBonus :: rat
  prestigeCost :: rat
  lastClickTime :: int
  bestTimed :: rat
  timedActive :: bool
  timedTimeLeft :: int
  timedScore :: rat
  daily :: daily
  theme :: string
  soundOn :: bool
  musicOn :: bool
  achievementsUnlocked :: "achievement set"
  ownedSkins :: "string list option"
  currentSkin :: "string option"
  soundVolumes :: "(string \<times> rat) list option"
  soundType :: "string option"

text \<open>The object literal \<^verbatim>\<open>const state = {...}\<close>; the last four fields are not in the
  literal and so start undefined. (The audio set-up that runs when the page loads then
  fills \<^verbatim>\<open>soundVolumes\<close> with the default volumes; none of the handlers below reads or
  writes that field.)\<close>

definition initial_state :: state where
  "initial_state = \<lparr>
     pseudo = '''', score = 0, totalClicks = 0, autoClickers = 0, autoClickCost = 500,
     multiplier = 1, multiplierCost = 1000, critChance = 2 / 100, critPower = 5,
     critChanceCost = 2000, critPowerCost = 3000, tempBoostActive = False,
     tempBoostEnd = 0, tempBoostCost = 300, prestigeCount = 0, prestigeBonus = 0,
     prestigeCost = 20000, lastClickTime = 0, bestTimed = 0, timedActive = False,
     timedTimeLeft = 60, timedScore = 0,
     daily = \<lparr>active = False, target = 5000, rewardPct = 5, expiresAt = 0,
       claimedToday = False\<rparr>,
     theme = ''normal'', soundOn = True, musicOn = False, achievementsUnlocked = {},
     ownedSkins = None, currentSkin = None, soundVolumes = None, soundType = None\<rparr>"

section \<open>Achievements\<close>

definition unlockAchievement :: "achievement \<Rightarrow> state \<Rightarrow> state" where
  "unlockAchievement text s =
     (if text \<in> achievementsUnlocked s then s
      else s\<lparr>achievementsUnlocked := insert text (achievementsUnlocked s)\<rparr>)"

definition clickMilestones :: "int list" where
  "clickMilestones = [100, 1000, 10000, 100000, 1000000, 10000000]"

definition checkClickAchievements :: "state \<Rightarrow> state" where
  "checkClickAchievements s =
     (let s1 = fold (\<lambda>m t. if totalClicks t = m
                             then unlockAchievement (ClickMilestone (pseudo t) m) t else t)
                    clickMilestones s
      in if timedActive s1 then s1\<lparr>timedScore := timedScore s1 + of_int (multiplier s1)\<rparr>
         else s1)"

definition checkUpgradeAchievements :: "state \<Rightarrow> state" where
  "checkUpgradeAchievements s =
     (let s1 = (if autoClickers s > 0 \<and> autoClickers s mod 10 = 0
                then unlockAchievement (AutoClickersReached (pseudo s) (autoClickers s)) s
                else s)
      in if multiplier s1 > 0 \<and> multiplier s1 mod 10 = 0
         then unlockAchievement (MultiplierReached (multiplier s1)) s1 else s1)"

section \<open>The click handler\<close>

text \<open>The running product \<^verbatim>\<open>gain\<close> of the click handler, before it is floored.\<close>

definition click_gain :: "bool \<Rightarrow> state \<Rightarrow> rat" where
  "click_gain isCrit s =
     (let gain = of_int (multiplier s);
          gain = (if tempBoostActive s then gain * 2 else gain);
          gain = gain * (1 + prestigeBonus s / 100);
          gain = (if isCrit then gain * critPower s else gain)
      in gain)"

text \<open>\<open>now\<close> is \<^verbatim>\<open>Date.now()\<close> and \<open>r\<close> the value of \<^verbatim>\<open>Math.random()\<close>.\<close>

definition click :: "int \<Rightarrow> rat \<Rightarrow> state \<Rightarrow> state" where
  "click now r s =
     (let isCrit = (r < critChance s);
          gain = click_gain isCrit s;
          s1 = s\<lparr>lastClickTime := now\<rparr>;
          s2 = s1\<lparr>score := score s1 + of_int \<lfloor>gain\<rfloor>\<rparr>;
          s3 = s2\<lparr>totalClicks := totalClicks s2 + 1\<rparr>
      in checkClickAchievements s3)"

section \<open>Purchases\<close>

definition upgradeAuto :: "state \<Rightarrow> state" where
  "upgradeAuto s =
     (if score s \<ge> autoClickCost s then
        checkUpgradeAchievements
          (s\<lparr>score := score s - autoClickCost s,
             autoClickers := autoClickers s + 1,
             autoClickCost := of_int \<lfloor>autoClickCost s * (3 / 2)\<rfloor>\<rparr>)
      else s)"

definition upgradeMult :: "state \<Rightarrow> state" where
  "upgradeMult s =
     (if score s \<ge> multiplierCost s then
        checkUpgradeAchievements
          (s\<lparr>score := score s - multiplierCost s,
             multiplier := multiplier s + 1,
             multiplierCost := of_int \<lfloor>multiplierCost s * 2\<rfloor>\<rparr>)
      else s)"

definition upgradeCritChance :: "state \<Rightarrow> state" where
  "upgradeCritChance s =
     (if score s \<ge> critChanceCost s then
        (let s1 = s\<lparr>score := score s - critChanceCost s,
                     critChance := min (1 / 2) (critChance s + 1 / 100),
                     critChanceCost := of_int \<lfloor>critChanceCost s * 2\<rfloor>\<rparr>
         in unlockAchievement (CritChanceRaised (round (critChance s1 * 100))) s1)
      else s)"

definition upgradeCritPower :: "state \<Rightarrow> state" where
  "upgradeCritPower s =
     (if score s \<ge> critPowerCost s then
        s\<lparr>score := score s - critPowerCost s,
          critPower := min 50 (critPower s + 5),
          critPowerCost := of_int \<lfloor>critPowerCost s * 2\<rfloor>\<rparr>
      else s)"

definition upgradeTempBoost :: "int \<Rightarrow> state \<Rightarrow> state" where
  "upgradeTempBoost now s =
     (if score s \<ge> tempBoostCost s then
        s\<lparr>score := score s - tempBoostCost s,
          tempBoostActive := True,
          tempBoostEnd := now + 30000\<rparr>
      else s)"

text \<open>The five purchase buttons, named as the specification names them.\<close>

datatype kind = AutoClick | Multiplier | CritChance | CritPower | TempBoost

fun cost :: "kind \<Rightarrow> state \<Rightarrow> rat" where
  "cost AutoClick s = autoClickCost s"
| "cost Multiplier s = multiplierCost s"
| "cost CritChance s = critChanceCost s"
| "cost CritPower s = critPowerCost s"
| "cost TempBoost s = tempBoostCost s"

fun purchase :: "kind \<Rightarrow> int \<Rightarrow> state \<Rightarrow> state" where
  "purchase AutoClick now s = upgradeAuto s"
| "purchase Multiplier now s = upgradeMult s"
| "purchase CritChance now s = upgradeCritChance s"
| "purchase CritPower now s = upgradeCritPower s"
| "purchase TempBoost now s = upgradeTempBoost now s"

section \<open>Prestige\<close>

text \<open>\<^verbatim>\<open>state.prestigeCost || 20000\<close>: a number is falsy when it is zero.\<close>

definition prestigeCost_or_default :: "state \<Rightarrow> rat" where
  "prestigeCost_or_default s = (if prestigeCost s = 0 then 20000 else prestigeCost s)"

text \<open>\<open>confirmed\<close> is the answer of the \<^verbatim>\<open>confirm(...)\<close> dialog, asked only when the
  score covers the cost.\<close>

definition doPrestige :: "bool \<Rightarrow> state \<Rightarrow> state" where
  "doPrestige confirmed s =
     (if score s < prestigeCost_or_default s then s
      else if \<not> confirmed then s
      else
        (let s1 = s\<lparr>score := score s - prestigeCost s,
                     prestigeCount := prestigeCount s + 1,
                     prestigeBonus := prestigeBonus s + 10\<rparr>;
             s2 = s1\<lparr>totalClicks := 0, autoClickers := 0, autoClickCost := 50,
                      multiplier := 1, multiplierCost := 1000, critChance := 10 / 100,
                      critPower := 10, critChanceCost := 2000, critPowerCost := 3000,
                      tempBoostActive := False, tempBoostEnd := 0\<rparr>;
             s3 = s2\<lparr>prestigeCost := of_int \<lfloor>prestigeCost_or_default s2 * 2\<rfloor>\<rparr>
         in unlockAchievement (PrestigeDone (prestigeCount s3)) s3))"

section \<open>Timed mode\<close>

text \<open>The state part of the start button; it also creates the one-second interval
  whose callback is \<open>timedTick\<close>.\<close>

definition startTimed :: "state \<Rightarrow> state" where
  "startTimed s =
     (if timedActive s then s
      else unlockAchievement TimedStarted
             (s\<lparr>timedActive := True, timedTimeLeft := 60, timedScore := 0\<rparr>))"

definition timedTick :: "state \<Rightarrow> state" where
  "timedTick s =
     (let s1 = s\<lparr>timedTimeLeft := timedTimeLeft s - 1\<rparr>
      in if timedTimeLeft s1 \<le> 0 then
           (let s2 = s1\<lparr>timedActive := False\<rparr>;
                s3 = s2\<lparr>bestTimed := max (bestTimed s2) (timedScore s2)\<rparr>
            in unlockAchievement (TimedFinished (timedScore s3) (bestTimed s3)) s3)
         else s1)"

section \<open>The auto-click loop and the bonus button\<close>

definition autoTick :: "int \<Rightarrow> state \<Rightarrow> state" where
  "autoTick nowAuto s =
     (let s1 = (if autoClickers s > 0 then
                  (let gain = of_int (autoClickers s * multiplier s);
                       gain = (if tempBoostActive s then gain * 2 else gain);
                       gain = gain * (1 + prestigeBonus s / 100);
                       t = s\<lparr>score := score s + of_int \<lfloor>gain\<rfloor>\<rparr>
                   in if timedActive t then t\<lparr>timedScore := timedScore t + of_int \<lfloor>gain\<rfloor>\<rparr>
                      else t)
                else s)
      in if tempBoostActive s1 \<and> nowAuto > tempBoostEnd s1
         then unlockAchievement BoostEnded (s1\<lparr>tempBoostActive := False\<rparr>)
         else s1)"

definition bonusClick :: "rat \<Rightarrow> state \<Rightarrow> state" where
  "bonusClick r s =
     (let bonus = of_int \<lfloor>100 + r * 900\<rfloor>;
          s1 = s\<lparr>score := score s + bonus\<rparr>
      in if timedActive s1 then s1\<lparr>timedScore := timedScore s1 + bonus\<rparr> else s1)"

section \<open>The daily challenge\<close>

text \<open>The one-second daily tick; \<open>nowDaily\<close> is \<^verbatim>\<open>Date.now()\<close>.\<close>

definition dailyTick :: "int \<Rightarrow> state \<Rightarrow> state" where
  "dailyTick nowDaily s =
     (if \<not> active (daily s) then s
      else if score s \<ge> target (daily s) \<and> \<not> claimedToday (daily s) then
        (let d1 = (daily s)\<lparr>claimedToday := True, active := False,
                              expiresAt := nowDaily + 10 * 60 * 1000\<rparr>;
             s1 = s\<lparr>daily := d1, tempBoostActive := True, tempBoostEnd := expiresAt d1\<rparr>
         in unlockAchievement (DailySucceeded (rewardPct (daily s1))) s1)
      else if nowDaily > expiresAt (daily s) \<and> \<not> claimedToday (daily s) then
        s\<lparr>daily := (daily s)\<lparr>active := False\<rparr>\<rparr>
      else s)"

text \<open>
  Around the state object the daily challenge uses two keys of the browser store,
  \<^verbatim>\<open>dailyKey\<close> and \<^verbatim>\<open>dailyStarted\<close> (absent keys read as \<open>None\<close>), and timed mode owns the
  intervals it has created and not yet cleared. Together with the state they form the
  session.
\<close>

record world =
  st :: state
  dailyKey :: "string option"
  dailyStarted :: "string option"
  timedIntervals :: nat

text \<open>\<open>todayKey\<close> is \<^verbatim>\<open>new Date().toDateString()\<close>, \<open>r1\<close> and \<open>r2\<close> the two values
  of \<^verbatim>\<open>Math.random()\<close> drawn when a new challenge is generated.\<close>

definition ensureDaily :: "bool \<Rightarrow> string \<Rightarrow> rat \<Rightarrow> rat \<Rightarrow> world \<Rightarrow> world" where
  "ensureDaily forceNew todayKey r1 r2 w =
     (if forceNew \<or> dailyKey w \<noteq> Some todayKey then
        w\<lparr>st := (st w)\<lparr>daily := (daily (st w))\<lparr>
                   target := 3000 + of_int \<lfloor>r1 * 7000\<rfloor>,
                   rewardPct := 3 + of_int \<lfloor>r2 * 7\<rfloor>,
                   active := False, expiresAt := 0, claimedToday := False\<rparr>\<rparr>,
          dailyKey := Some todayKey\<rparr>
      else w)"

definition startDaily :: "string \<Rightarrow> int \<Rightarrow> rat \<Rightarrow> rat \<Rightarrow> world \<Rightarrow> world" where
  "startDaily todayKey now r1 r2 w =
     (let w1 = ensureDaily False todayKey r1 r2 w in
      if dailyStarted w1 = Some todayKey then w1
      else if active (daily (st w1)) then w1
      else if claimedToday (daily (st w1)) then w1
      else
        w1\<lparr>st := unlockAchievement DailyStarted
                    ((st w1)\<lparr>daily := (daily (st w1))\<lparr>active := True,
                                 expiresAt := now + 10 * 60 * 1000\<rparr>\<rparr>),
           dailyStarted := Some todayKey\<rparr>)"

section \<open>Sessions\<close>

text \<open>
  What can happen to a session: a handler runs, or a timer callback runs. A session
  starts from the default state, with whatever the store holds under the two daily keys,
  and no interval. Loading or importing a save is not among the events: it can put any
  value into any field. The Start button (it sets the pseudo and loads), the skin shop,
  the manual save, the clicks-per-second check and the theme and sound switches are
  left out as well; what is proved of sessions is proved of these events only.
\<close>

datatype event =
    Click int rat
  | Purchase kind int
  | Prestige bool
  | StartTimed
  | TimedTick
  | AutoTick int
  | BonusClick rat
  | EnsureDaily bool string rat rat
  | StartDaily string int rat rat
  | DailyTick int

fun exec :: "event \<Rightarrow> world \<Rightarrow> world" where
  "exec (Click now r) w = w\<lparr>st := click now r (st w)\<rparr>"
| "exec (Purchase k now) w = w\<lparr>st := purchase k now (st w)\<rparr>"
| "exec (Prestige c) w = w\<lparr>st := doPrestige c (st w)\<rparr>"
| "exec StartTimed w =
     (if timedActive (st w) then w
      else w\<lparr>st := startTimed (st w), timedIntervals := Suc (timedIntervals w)\<rparr>)"
| "exec TimedTick w =
     (if timedIntervals w = 0 then w
      else (let s1 = timedTick (st w)
            in w\<lparr>st := s1,
                 timedIntervals := (if timedTimeLeft s1 \<le> 0 then timedIntervals w - 1
                                    else timedIntervals w)\<rparr>))"
| "exec (AutoTick now) w = w\<lparr>st := autoTick now (st w)\<rparr>"
| "exec (BonusClick r) w = w\<lparr>st := bonusClick r (st w)\<rparr>"
| "exec (EnsureDaily forceNew todayKey r1 r2) w = ensureDaily forceNew todayKey r1 r2 w"
| "exec (StartDaily todayKey now r1 r2) w = startDaily todayKey now r1 r2 w"
| "exec (DailyTick now) w = w\<lparr>st := dailyTick now (st w)\<rparr>"

definition initial_world :: "string option \<Rightarrow> string option \<Rightarrow> world" where
  "initial_world dk ds =
     \<lparr>st = initial_state, dailyKey = dk, dailyStarted = ds, timedIntervals = 0\<rparr>"

definition run :: "event list \<Rightarrow> world \<Rightarrow> world" where
  "run evs w = fold exec evs w"

section \<open>Persistence\<close>

subsection \<open>The throttled save\<close>

text \<open>
  \<^verbatim>\<open>throttlePersist\<close> uses two module variables, \<^verbatim>\<open>__lastPersist\<close> and
  \<^verbatim>\<open>__pendingPersist\<close>, and at most one outstanding \<^verbatim>\<open>setTimeout\<close>. \<open>timerDue\<close> is
  the time at which the outstanding timeout is due, \<open>writes\<close> lists the times of the
  calls of \<^verbatim>\<open>persist()\<close>, latest first.
\<close>

record persister =
  lastPersist :: int
  pendingPersist :: bool
  timerDue :: "int option"
  writes :: "int list"

definition PERSIST_THROTTLE_MS :: int where
  "PERSIST_THROTTLE_MS = 1000"

definition initial_persister :: persister where
  "initial_persister =
     \<lparr>lastPersist = 0, pendingPersist = False, timerDue = None, writes = []\<rparr>"

definition throttlePersist :: "int \<Rightarrow> persister \<Rightarrow> persister" where
  "throttlePersist now p =
     (if now - lastPersist p > PERSIST_THROTTLE_MS then
        p\<lparr>lastPersist := now, writes := now # writes p\<rparr>
      else if \<not> pendingPersist p then
        p\<lparr>pendingPersist := True, timerDue := Some (now + PERSIST_THROTTLE_MS)\<rparr>
      else p)"

text \<open>The callback given to \<^verbatim>\<open>setTimeout\<close>, run at time \<open>now\<close>.\<close>

definition persistTimer :: "int \<Rightarrow> persister \<Rightarrow> persister" where
  "persistTimer now p =
     p\<lparr>pendingPersist := False, writes := now # writes p, lastPersist := now,
       timerDue := None\<rparr>"

datatype pevent = Save int | Timer int

fun pexec :: "pevent \<Rightarrow> persister \<Rightarrow> persister" where
  "pexec (Save now) p = throttlePersist now p"
| "pexec (Timer now) p = (if timerDue p = None then p else persistTimer now p)"

text \<open>A schedule the browser can produce: time does not run backwards, and the
  timeout runs only when one is outstanding, and not before it is due.\<close>

fun feasible :: "int \<Rightarrow> persister \<Rightarrow> pevent list \<Rightarrow> bool" where
  "feasible t0 p [] = True"
| "feasible t0 p (Save t # es) = (t0 \<le> t \<and> feasible t (pexec (Save t) p) es)"
| "feasible t0 p (Timer t # es) =
     (t0 \<le> t \<and> (case timerDue p of None \<Rightarrow> False | Some d \<Rightarrow> d \<le> t)
      \<and> feasible t (pexec (Timer t) p) es)"

subsection \<open>Loading\<close>

text \<open>
  What \<^verbatim>\<open>JSON.parse\<close> returns for a stored save, as far as \<^verbatim>\<open>Object.assign(state, s)\<close>
  reads it: each key of the state that \<^verbatim>\<open>persist()\<close> writes is present or absent.
  (The key \<^verbatim>\<open>volumes\<close> only feeds the audio volume table, which is not part of the
  state.)
\<close>

record saved =
  sv_pseudo :: "string option"
  sv_score :: "rat option"
  sv_totalClicks :: "int option"
  sv_autoClickers :: "int option"
  sv_autoClickCost :: "rat option"
  sv_multiplier :: "int option"
  sv_multiplierCost :: "rat option"
  sv_critChance :: "rat option"
  sv_critPower :: "rat option"
  sv_critChanceCost :: "rat option"
  sv_critPowerCost :: "rat option"
  sv_tempBoostActive :: "bool option"
  sv_tempBoostEnd :: "int option"
  sv_tempBoostCost :: "rat option"
  sv_prestigeCount :: "int option"
  sv_prestigeBonus :: "rat option"
  sv_prestigeCost :: "rat option"
  sv_bestTimed :: "rat option"
  sv_theme :: "string option"
  sv_soundOn :: "bool option"
  sv_musicOn :: "bool option"
  sv_achievementsUnlocked :: "achievement set option"
  sv_daily :: "daily option"
  sv_ownedSkins :: "string list option"
  sv_currentSkin :: "string option"
  sv_soundVolumes :: "(string \<times> rat) list option"
  sv_soundType :: "string option"


definition merge :: "'a option \<Rightarrow> 'a \<Rightarrow> 'a" where
  "merge v old = (case v of None \<Rightarrow> old | Some x \<Rightarrow> x)"

definition merge_opt :: "'a option \<Rightarrow> 'a option \<Rightarrow> 'a option" where
  "merge_opt v old = (case v of None \<Rightarrow> old | Some x \<Rightarrow> Some x)"

text \<open>\<^verbatim>\<open>Object.assign(state, s)\<close>: every key present in the save overwrites the field.\<close>

definition assign :: "saved \<Rightarrow> state \<Rightarrow> state" where
  "assign sv s = s\<lparr>
     pseudo := merge (sv_pseudo sv) (pseudo s),
     score := merge (sv_score sv) (score s),
     totalClicks := merge (sv_totalClicks sv) (totalClicks s),
     autoClickers := merge (sv_autoClickers sv) (autoClickers s),
     autoClickCost := merge (sv_autoClickCost sv) (autoClickCost s),
     multiplier := merge (sv_multiplier sv) (multiplier s),
     multiplierCost := merge (sv_multiplierCost sv) (multiplierCost s),
     critChance := merge (sv_critChance sv) (critChance s),
     critPower := merge (sv_critPower sv) (critPower s),
     critChanceCost := merge (sv_critChanceCost sv) (critChanceCost s),
     critPowerCost := merge (sv_critPowerCost sv) (critPowerCost s),
     tempBoostActive := merge (sv_tempBoostActive sv) (tempBoostActive s),
     tempBoostEnd := merge (sv_tempBoostEnd sv) (tempBoostEnd s),
     tempBoostCost := merge (sv_tempBoostCost sv) (tempBoostCost s),
     prestigeCount := merge (sv_prestigeCount sv) (prestigeCount s),
     prestigeBonus := merge (sv_prestigeBonus sv) (prestigeBonus s),
     prestigeCost := merge (sv_prestigeCost sv) (prestigeCost s),
     bestTimed := merge (sv_bestTimed sv) (bestTimed s),
     theme := merge (sv_theme sv) (theme s),
     soundOn := merge (sv_soundOn sv) (soundOn s),
     musicOn := merge (sv_musicOn sv) (musicOn s),
     achievementsUnlocked := merge (sv_achievementsUnlocked sv) (achievementsUnlocked s),
     daily := merge (sv_daily sv) (daily s),
     ownedSkins := merge_opt (sv_ownedSkins sv) (ownedSkins s),
     currentSkin := merge_opt (sv_currentSkin sv) (currentSkin s),
     soundVolumes := merge_opt (sv_soundVolumes sv) (soundVolumes s),
     soundType := merge_opt (sv_soundType sv) (soundType s)\<rparr>"

text \<open>What \<^verbatim>\<open>localStorage.getItem("clickerState")\<close> holds: nothing, a text that
  \<^verbatim>\<open>JSON.parse\<close> rejects, or a save.\<close>

datatype stored = NoData | Malformed | Parsed saved

text \<open>
  The body of \<^verbatim>\<open>loadPersisted\<close> after the early return is one \<^verbatim>\<open>try\<close> block.
  \<open>load_try\<close> is that block: it either runs to its end or throws, and in both cases
  hands on the state as the statements executed so far have left it. \<^verbatim>\<open>JSON.parse\<close>
  throws on a text that does not parse. Between the merge and the prestige-cost
  migration the block rebuilds the achievement list, may start the music and calls
  \<^verbatim>\<open>setTheme\<close>, a function that docs/script.js itself does not define; \<open>page_ok\<close> says
  whether these calls return. The statements after the migration copy
  \<^verbatim>\<open>s.ownedSkins\<close>, \<^verbatim>\<open>s.currentSkin\<close>, \<^verbatim>\<open>s.soundVolumes\<close> and \<^verbatim>\<open>s.soundType\<close> when
  they are truthy (a string is truthy when it is not empty).
\<close>

datatype js_error = SyntaxError | PageError

definition load_try :: "bool \<Rightarrow> saved option \<Rightarrow> state \<Rightarrow> (js_error \<times> state) + state" where
  "load_try page_ok parsed s =
     (case parsed of
        None \<Rightarrow> Inl (SyntaxError, s)
      | Some sv \<Rightarrow>
          (let s1 = assign sv s in
           if \<not> page_ok then Inl (PageError, s1)
           else
             (let s2 = (if prestigeCost s1 = 0 then s1\<lparr>prestigeCost := 20000\<rparr> else s1);
                  s3 = (case sv_ownedSkins sv of None \<Rightarrow> s2
                        | Some v \<Rightarrow> s2\<lparr>ownedSkins := Some v\<rparr>);
                  s4 = (case sv_currentSkin sv of None \<Rightarrow> s3
                        | Some v \<Rightarrow> if v = [] then s3 else s3\<lparr>currentSkin := Some v\<rparr>);
                  s5 = (case sv_soundVolumes sv of None \<Rightarrow> s4
                        | Some v \<Rightarrow> s4\<lparr>soundVolumes := Some v\<rparr>);
                  s6 = (case sv_soundType sv of None \<Rightarrow> s5
                        | Some v \<Rightarrow> if v = [] then s5 else s5\<lparr>soundType := Some v\<rparr>)
              in Inr s6)))"

text \<open>
  \<^verbatim>\<open>loadPersisted\<close> itself: the early return when nothing is stored, then the
  \<^verbatim>\<open>try\<close> block with its \<^verbatim>\<open>catch (e) { }\<close>, which swallows whatever the block throws.
  The result is \<open>Inr\<close> of the state when the function returns and would be \<open>Inl\<close> of the
  error if one left the function.
\<close>

definition loadPersisted :: "bool \<Rightarrow> stored \<Rightarrow> state \<Rightarrow> js_error + state" where
  "loadPersisted page_ok data s =
     (case data of
        NoData \<Rightarrow> Inr s
      | Malformed \<Rightarrow>
          (case load_try page_ok None s of Inl (e, s') \<Rightarrow> Inr s' | Inr s' \<Rightarrow> Inr s')
      | Parsed sv \<Rightarrow>
          (case load_try page_ok (Some sv) s of Inl (e, s') \<Rightarrow> Inr s' | Inr s' \<Rightarrow> Inr s'))"

section \<open>The purchase table of the specification\<close>

text \<open>
  The specification gives each purchase kind an effect and a rule for the next cost
  (section 4.1). These two definitions follow its table, not the code; the purchase
  handlers above are compared with them.
\<close>

definition spec_next_cost :: "kind \<Rightarrow> rat \<Rightarrow> rat" where
  "spec_next_cost k c =
     (case k of
        AutoClick \<Rightarrow> of_int \<lfloor>c * (3 / 2)\<rfloor>
      | Multiplier \<Rightarrow> of_int \<lfloor>c * 2\<rfloor>
      | CritChance \<Rightarrow> of_int \<lfloor>c * 2\<rfloor>
      | CritPower \<Rightarrow> of_int \<lfloor>c * 2\<rfloor>
      | TempBoost \<Rightarrow> c)"

definition spec_effect :: "kind \<Rightarrow> int \<Rightarrow> state \<Rightarrow> state \<Rightarrow> bool" where
  "spec_effect k now s s' =
     (case k of
        AutoClick \<Rightarrow> autoClickers s' = autoClickers s + 1
      | Multiplier \<Rightarrow> multiplier s' = multiplier s + 1
      | CritChance \<Rightarrow> critChance s' = min (1 / 2) (critChance s + 1 / 100)
      | CritPower \<Rightarrow> critPower s' = min 50 (critPower s + 5)
      | TempBoost \<Rightarrow> tempBoostActive s' \<and> tempBoostEnd s' = now + 30000)"

section \<open>What every session keeps true\<close>

definition is_whole :: "rat \<Rightarrow> bool" where
  "is_whole x \<longleftrightarrow> of_int \<lfloor>x\<rfloor> = x"

definition session_inv :: "state \<Rightarrow> bool" where
  "session_inv s \<longleftrightarrow>
     20000 \<le> prestigeCost s \<and> critChance s \<le> 1 / 2 \<and> critPower s \<le> 50
     \<and> is_whole (critChanceCost s) \<and> is_whole (critPowerCost s)
     \<and> \<not> (active (daily s) \<and> claimedToday (daily s))"

section \<open>Facts about the achievement helpers\<close>

text \<open>Unlocking changes the achievement set and nothing else; the checks that may
  unlock only ever add keys.\<close>

lemma unlockAchievement_eq:
  "unlockAchievement a s = s\<lparr>achievementsUnlocked := insert a (achievementsUnlocked s)\<rparr>"
  by (simp add: unlockAchievement_def insert_absorb)

lemma fold_milestones_eq:
  "\<exists>A. fold (\<lambda>m t. if totalClicks t = m
                     then unlockAchievement (ClickMilestone (pseudo t) m) t else t) ms s
       = s\<lparr>achievementsUnlocked := A\<rparr> \<and> achievementsUnlocked s \<subseteq> A"
  (is "\<exists>A. fold ?f ms s = _ \<and> _")
proof (induction ms arbitrary: s)
  case Nil
  show ?case by (rule exI [of _ "achievementsUnlocked s"]) simp
next
  case (Cons m ms)
  define B where "B = (if totalClicks s = m
      then insert (ClickMilestone (pseudo s) m) (achievementsUnlocked s)
      else achievementsUnlocked s)"
  have step: "?f m s = s\<lparr>achievementsUnlocked := B\<rparr>"
    by (simp add: B_def unlockAchievement_eq)
  have sub: "achievementsUnlocked s \<subseteq> B"
    by (auto simp: B_def)
  from Cons.IH [of "s\<lparr>achievementsUnlocked := B\<rparr>"] obtain A where
    A: "fold ?f ms (s\<lparr>achievementsUnlocked := B\<rparr>) = s\<lparr>achievementsUnlocked := A\<rparr>"
       "B \<subseteq> A"
    by auto
  have "fold ?f (m # ms) s = fold ?f ms (?f m s)" by simp
  with A(1) step have "fold ?f (m # ms) s = s\<lparr>achievementsUnlocked := A\<rparr>" by simp
  moreover have "achievementsUnlocked s \<subseteq> A" using A(2) sub by blast
  ultimately show ?case by blast
qed

lemma checkClickAchievements_eq:
  "\<exists>A. checkClickAchievements s =
         s\<lparr>achievementsUnlocked := A,
           timedScore := (if timedActive s then timedScore s + of_int (multiplier s)
                          else timedScore s)\<rparr>
       \<and> achievementsUnlocked s \<subseteq> A"
proof -
  obtain A where A: "fold (\<lambda>m t. if totalClicks t = m
                     then unlockAchievement (ClickMilestone (pseudo t) m) t else t) clickMilestones s
       = s\<lparr>achievementsUnlocked := A\<rparr>" "achievementsUnlocked s \<subseteq> A"
    using fold_milestones_eq by blast
  have "checkClickAchievements s =
         s\<lparr>achievementsUnlocked := A,
           timedScore := (if timedActive s then timedScore s + of_int (multiplier s)
                          else timedScore s)\<rparr>"
    unfolding checkClickAchievements_def A(1) by (simp add: Let_def)
  with A(2) show ?thesis by blast
qed

lemma checkUpgradeAchievements_eq:
  "\<exists>A. checkUpgradeAchievements s = s\<lparr>achievementsUnlocked := A\<rparr>
       \<and> achievementsUnlocked s \<subseteq> A"
proof -
  define c1 where "c1 \<longleftrightarrow> autoClickers s > 0 \<and> autoClickers s mod 10 = 0"
  define s1 where "s1 = (if c1
     then unlockAchievement (AutoClickersReached (pseudo s) (autoClickers s)) s else s)"
  define c2 where "c2 \<longleftrightarrow> multiplier s1 > 0 \<and> multiplier s1 mod 10 = 0"
  have unfolded: "checkUpgradeAchievements s =
      (if c2 then unlockAchievement (MultiplierReached (multiplier s1)) s1 else s1)"
    unfolding checkUpgradeAchievements_def Let_def c2_def s1_def c1_def by (rule refl)
  obtain A1 where A1: "s1 = s\<lparr>achievementsUnlocked := A1\<rparr>" "achievementsUnlocked s \<subseteq> A1"
  proof (cases c1)
    case True
    then show ?thesis
      using that [of "insert (AutoClickersReached (pseudo s) (autoClickers s))
                        (achievementsUnlocked s)"]
      by (auto simp: s1_def unlockAchievement_eq)
  next
    case False
    then show ?thesis using that [of "achievementsUnlocked s"] by (simp add: s1_def)
  qed
  show ?thesis
  proof (cases c2)
    case True
    then have "checkUpgradeAchievements s =
        s\<lparr>achievementsUnlocked := insert (MultiplierReached (multiplier s1)) A1\<rparr>"
      unfolding unfolded by (subst (2 3) A1(1)) (simp add: unlockAchievement_eq)
    with A1(2) show ?thesis by blast
  next
    case False
    then have "checkUpgradeAchievements s = s\<lparr>achievementsUnlocked := A1\<rparr>"
      unfolding unfolded using A1(1) by simp
    with A1(2) show ?thesis by blast
  qed
qed

section \<open>The handlers as record updates\<close>

lemma upgradeAuto_eq:
  assumes "autoClickCost s \<le> score s"
  shows "\<exists>A. upgradeAuto s =
           s\<lparr>score := score s - autoClickCost s, autoClickers := autoClickers s + 1,
             autoClickCost := of_int \<lfloor>autoClickCost s * (3 / 2)\<rfloor>,
             achievementsUnlocked := A\<rparr>
         \<and> achievementsUnlocked s \<subseteq> A"
proof -
  let ?t = "s\<lparr>score := score s - autoClickCost s, autoClickers := autoClickers s + 1,
              autoClickCost := of_int \<lfloor>autoClickCost s * (3 / 2)\<rfloor>\<rparr>"
  obtain A where A: "checkUpgradeAchievements ?t = ?t\<lparr>achievementsUnlocked := A\<rparr>"
      "achievementsUnlocked ?t \<subseteq> A"
    using checkUpgradeAchievements_eq [of ?t] by blast
  have "upgradeAuto s = ?t\<lparr>achievementsUnlocked := A\<rparr>"
    using assms A(1) by (simp add: upgradeAuto_def)
  with A(2) show ?thesis by (intro exI [of _ A]) simp
qed

lemma upgradeMult_eq:
  assumes "multiplierCost s \<le> score s"
  shows "\<exists>A. upgradeMult s =
           s\<lparr>score := score s - multiplierCost s, multiplier := multiplier s + 1,
             multiplierCost := of_int \<lfloor>multiplierCost s * 2\<rfloor>,
             achievementsUnlocked := A\<rparr>
         \<and> achievementsUnlocked s \<subseteq> A"
proof -
  let ?t = "s\<lparr>score := score s - multiplierCost s, multiplier := multiplier s + 1,
              multiplierCost := of_int \<lfloor>multiplierCost s * 2\<rfloor>\<rparr>"
  obtain A where A: "checkUpgradeAchievements ?t = ?t\<lparr>achievementsUnlocked := A\<rparr>"
      "achievementsUnlocked ?t \<subseteq> A"
    using checkUpgradeAchievements_eq [of ?t] by blast
  have "upgradeMult s = ?t\<lparr>achievementsUnlocked := A\<rparr>"
    using assms A(1) by (simp add: upgradeMult_def)
  with A(2) show ?thesis by (intro exI [of _ A]) simp
qed

lemma upgradeCritChance_eq:
  assumes "critChanceCost s \<le> score s"
  shows "upgradeCritChance s =
           s\<lparr>score := score s - critChanceCost s,
             critChance := min (1 / 2) (critChance s + 1 / 100),
             critChanceCost := of_int \<lfloor>critChanceCost s * 2\<rfloor>,
             achievementsUnlocked :=
               insert (CritChanceRaised (round (min (1 / 2) (critChance s + 1 / 100) * 100)))
                 (achievementsUnlocked s)\<rparr>"
  using assms by (simp add: upgradeCritChance_def Let_def unlockAchievement_eq)

lemma upgradeCritPower_eq:
  assumes "critPowerCost s \<le> score s"
  shows "upgradeCritPower s =
           s\<lparr>score := score s - critPowerCost s,
             critPower := min 50 (critPower s + 5),
             critPowerCost := of_int \<lfloor>critPowerCost s * 2\<rfloor>\<rparr>"
  using assms by (simp add: upgradeCritPower_def)

lemma upgradeTempBoost_eq:
  assumes "tempBoostCost s \<le> score s"
  shows "upgradeTempBoost now s =
           s\<lparr>score := score s - tempBoostCost s, tempBoostActive := True,
             tempBoostEnd := now + 30000\<rparr>"
  using assms by (simp add: upgradeTempBoost_def)

lemma purchase_refused:
  assumes "score s < cost k s"
  shows "purchase k now s = s"
  using assms
  by (cases k)
     (simp_all add: upgradeAuto_def upgradeMult_def upgradeCritChance_def
        upgradeCritPower_def upgradeTempBoost_def)

lemma click_eq:
  "\<exists>A. click now r s =
     s\<lparr>lastClickTime := now,
       score := score s + of_int \<lfloor>click_gain (r < critChance s) s\<rfloor>,
       totalClicks := totalClicks s + 1,
       achievementsUnlocked := A,
       timedScore := (if timedActive s then timedScore s + of_int (multiplier s)
                      else timedScore s)\<rparr>
     \<and> achievementsUnlocked s \<subseteq> A"
proof -
  let ?t = "s\<lparr>lastClickTime := now,
       score := score s + of_int \<lfloor>click_gain (r < critChance s) s\<rfloor>,
       totalClicks := totalClicks s + 1\<rparr>"
  obtain A where A: "checkClickAchievements ?t =
         ?t\<lparr>achievementsUnlocked := A,
           timedScore := (if timedActive ?t then timedScore ?t + of_int (multiplier ?t)
                          else timedScore ?t)\<rparr>" "achievementsUnlocked ?t \<subseteq> A"
    using checkClickAchievements_eq [of ?t] by blast
  have "click now r s = checkClickAchievements ?t"
    by (simp add: click_def Let_def)
  with A show ?thesis by (intro exI [of _ A]) simp
qed

lemma click_gain_formula:
  "click_gain isCrit s =
     of_int (multiplier s) * (if tempBoostActive s then 2 else 1)
       * (1 + prestigeBonus s / 100) * (if isCrit then critPower s else 1)"
  by (simp add: click_gain_def Let_def)

section \<open>Clicks\<close>

text \<open>
  What a click does to the score, the click counter and the timed score. The gain is
  the product in the order the handler multiplies it; the timed score takes the bare
  multiplier, added by \<^verbatim>\<open>checkClickAchievements\<close>.
\<close>

lemma click_fields:
  "let isCrit = (r < critChance s);
       gain = \<lfloor>of_int (multiplier s) * (if tempBoostActive s then 2 else 1)
                * (1 + prestigeBonus s / 100) * (if isCrit then critPower s else 1)\<rfloor>;
       s' = click now r s
   in score s' = score s + of_int gain
      \<and> totalClicks s' = totalClicks s + 1
      \<and> timedScore s' = (if timedActive s then timedScore s + of_int (multiplier s)
                         else timedScore s)"
proof -
  obtain A where "click now r s =
     s\<lparr>lastClickTime := now,
       score := score s + of_int \<lfloor>click_gain (r < critChance s) s\<rfloor>,
       totalClicks := totalClicks s + 1,
       achievementsUnlocked := A,
       timedScore := (if timedActive s then timedScore s + of_int (multiplier s)
                      else timedScore s)\<rparr>"
    using click_eq by blast
  then show ?thesis
    by (simp add: Let_def click_gain_formula)
qed

text \<open>
  Claim C1 says that a click adds the integer \<open>gain = floor (multiplier * (2 if boosted
  else 1) * (1 + prestigeBonus / 100) * (critPower if critical else 1))\<close> to the score,
  adds one to \<open>totalClicks\<close> and, in timed mode, adds the same gain to the timed score.
  The code does not do the last: start timed mode from the default state and click with
  a random draw of 0. The click is critical, the score grows by the gain 5, and the
  timed score grows by the multiplier 1. The auto-click loop and the bonus button do add
  to the timed score what they add to the score.
\<close>

theorem click_adds_multiplier_to_timedScore:
  "timedActive (startTimed initial_state)
   \<and> score (click 1000 0 (startTimed initial_state))
       = score (startTimed initial_state) + 5
   \<and> timedScore (click 1000 0 (startTimed initial_state))
       = timedScore (startTimed initial_state) + 1"
proof -
  have s0: "startTimed initial_state =
      initial_state\<lparr>timedActive := True, timedTimeLeft := 60, timedScore := 0,
        achievementsUnlocked := {TimedStarted}\<rparr>"
    by (simp add: startTimed_def unlockAchievement_eq initial_state_def)
  obtain A where "click 1000 0 (startTimed initial_state) =
     (startTimed initial_state)\<lparr>lastClickTime := 1000,
       score := score (startTimed initial_state)
         + of_int \<lfloor>click_gain (0 < critChance (startTimed initial_state))
             (startTimed initial_state)\<rfloor>,
       totalClicks := totalClicks (startTimed initial_state) + 1,
       achievementsUnlocked := A,
       timedScore := (if timedActive (startTimed initial_state)
                      then timedScore (startTimed initial_state)
                        + of_int (multiplier (startTimed initial_state))
                      else timedScore (startTimed initial_state))\<rparr>"
    using click_eq by blast
  then show ?thesis
    by (simp add: s0 click_gain_formula) (simp add: initial_state_def)
qed

section \<open>Purchases against the specification's table\<close>

text \<open>
  Claim C2. For each of the five purchase kinds: while the score is below the cost the
  purchase changes nothing; otherwise it takes the old cost off the score, applies the
  kind's effect, and sets the next cost to \<open>floor (cost * 1.5)\<close> for the auto-clicker,
  \<open>floor (cost * 2)\<close> for multiplier, critical chance and critical power, and leaves
  the cost of the temporary boost as it was.
\<close>

theorem purchase_effect:
  "(score s < cost k s \<longrightarrow> purchase k now s = s)
   \<and> (cost k s \<le> score s \<longrightarrow>
        score (purchase k now s) = score s - cost k s
        \<and> spec_effect k now s (purchase k now s)
        \<and> cost k (purchase k now s) = spec_next_cost k (cost k s))"
proof (intro conjI impI)
  assume "score s < cost k s"
  then show "purchase k now s = s" by (rule purchase_refused)
next
  assume ok: "cost k s \<le> score s"
  have "score (purchase k now s) = score s - cost k s
        \<and> spec_effect k now s (purchase k now s)
        \<and> cost k (purchase k now s) = spec_next_cost k (cost k s)"
  proof (cases k)
    case AutoClick
    with ok obtain A where "upgradeAuto s =
           s\<lparr>score := score s - autoClickCost s, autoClickers := autoClickers s + 1,
             autoClickCost := of_int \<lfloor>autoClickCost s * (3 / 2)\<rfloor>,
             achievementsUnlocked := A\<rparr>"
      using upgradeAuto_eq [of s] by auto
    with AutoClick show ?thesis by (simp add: spec_effect_def spec_next_cost_def)
  next
    case Multiplier
    with ok obtain A where "upgradeMult s =
           s\<lparr>score := score s - multiplierCost s, multiplier := multiplier s + 1,
             multiplierCost := of_int \<lfloor>multiplierCost s * 2\<rfloor>,
             achievementsUnlocked := A\<rparr>"
      using upgradeMult_eq [of s] by auto
    with Multiplier show ?thesis by (simp add: spec_effect_def spec_next_cost_def)
  next
    case CritChance
    with ok show ?thesis
      by (simp add: upgradeCritChance_eq spec_effect_def spec_next_cost_def)
  next
    case CritPower
    with ok show ?thesis
      by (simp add: upgradeCritPower_eq spec_effect_def spec_next_cost_def)
  next
    case TempBoost
    with ok show ?thesis
      by (simp add: upgradeTempBoost_eq spec_effect_def spec_next_cost_def)
  qed
  then show "score (purchase k now s) = score s - cost k s"
    and "spec_effect k now s (purchase k now s)"
    and "cost k (purchase k now s) = spec_next_cost k (cost k s)"
    by simp_all
qed

theorem purchase_effect_witness:
  "purchase AutoClick 0 initial_state = initial_state
   \<and> score (purchase AutoClick 0 (initial_state\<lparr>score := 500\<rparr>)) = 0
   \<and> autoClickers (purchase AutoClick 0 (initial_state\<lparr>score := 500\<rparr>)) = 1
   \<and> autoClickCost (purchase AutoClick 0 (initial_state\<lparr>score := 500\<rparr>)) = 750"
proof -
  have "purchase AutoClick 0 initial_state = initial_state"
    using purchase_effect [of initial_state AutoClick 0] by (simp add: initial_state_def)
  moreover have "score (purchase AutoClick 0 (initial_state\<lparr>score := 500\<rparr>)) = 0
   \<and> autoClickers (purchase AutoClick 0 (initial_state\<lparr>score := 500\<rparr>)) = 1
   \<and> autoClickCost (purchase AutoClick 0 (initial_state\<lparr>score := 500\<rparr>)) = 750"
    using purchase_effect [of "initial_state\<lparr>score := 500\<rparr>" AutoClick 0]
    by (simp add: initial_state_def spec_effect_def spec_next_cost_def)
  ultimately show ?thesis by blast
qed

section \<open>The daily tick\<close>

text \<open>
  Claim C4. On a daily tick at time \<open>now\<close> with the challenge active, the score at
  least the target and the reward not yet claimed, the tick sets \<open>claimedToday\<close>,
  clears \<open>active\<close>, sets \<open>expiresAt\<close> to \<open>now + 600000\<close>, switches the temporary boost
  on and sets its end time to \<open>now + 600000\<close>.
\<close>

theorem dailyTick_success:
  assumes "active (daily s)" and "target (daily s) \<le> score s"
    and "\<not> claimedToday (daily s)"
  shows "claimedToday (daily (dailyTick now s))
     \<and> \<not> active (daily (dailyTick now s))
     \<and> expiresAt (daily (dailyTick now s)) = now + 600000
     \<and> tempBoostActive (dailyTick now s)
     \<and> tempBoostEnd (dailyTick now s) = now + 600000"
  using assms by (simp add: dailyTick_def Let_def unlockAchievement_eq)

theorem dailyTick_success_witness:
  "claimedToday (daily (dailyTick 1000
       (initial_state\<lparr>score := 5000, daily := (daily initial_state)\<lparr>active := True\<rparr>\<rparr>)))
   \<and> \<not> active (daily (dailyTick 1000
       (initial_state\<lparr>score := 5000, daily := (daily initial_state)\<lparr>active := True\<rparr>\<rparr>)))
   \<and> tempBoostActive (dailyTick 1000
       (initial_state\<lparr>score := 5000, daily := (daily initial_state)\<lparr>active := True\<rparr>\<rparr>))
   \<and> tempBoostEnd (dailyTick 1000
       (initial_state\<lparr>score := 5000, daily := (daily initial_state)\<lparr>active := True\<rparr>\<rparr>))
      = 601000"
  using dailyTick_success [of
      "initial_state\<lparr>score := 5000, daily := (daily initial_state)\<lparr>active := True\<rparr>\<rparr>" 1000]
  by (simp add: initial_state_def)

section \<open>Prestige\<close>

lemma doPrestige_refused:
  assumes "score s < prestigeCost_or_default s \<or> \<not> confirmed"
  shows "doPrestige confirmed s = s"
  using assms by (auto simp: doPrestige_def)

lemma doPrestige_done:
  assumes "prestigeCost_or_default s \<le> score s" and "confirmed"
  shows "doPrestige confirmed s =
     s\<lparr>score := score s - prestigeCost s,
       prestigeCount := prestigeCount s + 1,
       prestigeBonus := prestigeBonus s + 10,
       totalClicks := 0, autoClickers := 0, autoClickCost := 50,
       multiplier := 1, multiplierCost := 1000, critChance := 10 / 100,
       critPower := 10, critChanceCost := 2000, critPowerCost := 3000,
       tempBoostActive := False, tempBoostEnd := 0,
       prestigeCost := of_int \<lfloor>prestigeCost_or_default s * 2\<rfloor>,
       achievementsUnlocked :=
         insert (PrestigeDone (prestigeCount s + 1)) (achievementsUnlocked s)\<rparr>"
  using assms
  by (simp add: doPrestige_def Let_def unlockAchievement_eq prestigeCost_or_default_def)


text \<open>
  Claim C10, the frame of a prestige. Whatever the score and the answer to the
  confirmation, a prestige leaves untouched every field it does not reset: the pseudo,
  the best timed score, the three timed-mode fields, the whole daily challenge, the cost
  of the temporary boost, theme, sound and music switches, sound volumes and sound type,
  and also the last click time and the skins. The achievement set is either unchanged or
  gains the one new prestige key.
\<close>

theorem doPrestige_frame:
  "pseudo (doPrestige confirmed s) = pseudo s
   \<and> bestTimed (doPrestige confirmed s) = bestTimed s
   \<and> timedActive (doPrestige confirmed s) = timedActive s
   \<and> timedTimeLeft (doPrestige confirmed s) = timedTimeLeft s
   \<and> timedScore (doPrestige confirmed s) = timedScore s
   \<and> daily (doPrestige confirmed s) = daily s
   \<and> tempBoostCost (doPrestige confirmed s) = tempBoostCost s
   \<and> theme (doPrestige confirmed s) = theme s
   \<and> soundOn (doPrestige confirmed s) = soundOn s
   \<and> musicOn (doPrestige confirmed s) = musicOn s
   \<and> soundVolumes (doPrestige confirmed s) = soundVolumes s
   \<and> soundType (doPrestige confirmed s) = soundType s
   \<and> lastClickTime (doPrestige confirmed s) = lastClickTime s
   \<and> ownedSkins (doPrestige confirmed s) = ownedSkins s
   \<and> currentSkin (doPrestige confirmed s) = currentSkin s
   \<and> (achievementsUnlocked (doPrestige confirmed s) = achievementsUnlocked s
      \<or> achievementsUnlocked (doPrestige confirmed s) =
          insert (PrestigeDone (prestigeCount s + 1)) (achievementsUnlocked s))"
proof (cases "score s < prestigeCost_or_default s \<or> \<not> confirmed")
  case True
  then show ?thesis by (simp only: doPrestige_refused) simp
next
  case False
  then have "prestigeCost_or_default s \<le> score s" and "confirmed" by auto
  then show ?thesis by (simp only: doPrestige_done) simp
qed

section \<open>Sessions keep the invariant\<close>

lemma is_whole_of_int [simp]: "is_whole (of_int n)"
  by (simp add: is_whole_def)

lemma is_whole_numeral [simp]: "is_whole (numeral n)"
  using is_whole_of_int [of "numeral n"] by simp

lemma is_whole_double:
  assumes "is_whole c"
  shows "of_int \<lfloor>c * 2\<rfloor> = 2 * c"
proof -
  from assms have "c = of_int \<lfloor>c\<rfloor>" unfolding is_whole_def by (rule sym)
  then obtain n :: int where n: "c = of_int n" ..
  have "c * 2 = of_int (n * 2)" by (simp add: n)
  then have "\<lfloor>c * 2\<rfloor> = n * 2" by (simp only: floor_of_int)
  then show ?thesis by (simp add: n)
qed

lemma session_inv_initial: "session_inv initial_state"
  by (simp add: session_inv_def initial_state_def)

lemma session_inv_achievements:
  "session_inv (s\<lparr>achievementsUnlocked := A\<rparr>) = session_inv s"
  by (simp add: session_inv_def)

lemma session_inv_click:
  assumes "session_inv s"
  shows "session_inv (click now r s)"
proof -
  obtain A where "click now r s =
     s\<lparr>lastClickTime := now,
       score := score s + of_int \<lfloor>click_gain (r < critChance s) s\<rfloor>,
       totalClicks := totalClicks s + 1,
       achievementsUnlocked := A,
       timedScore := (if timedActive s then timedScore s + of_int (multiplier s)
                      else timedScore s)\<rparr>"
    using click_eq by blast
  with assms show ?thesis by (simp add: session_inv_def)
qed

lemma session_inv_upgradeAuto:
  assumes "session_inv s"
  shows "session_inv (upgradeAuto s)"
proof (cases "autoClickCost s \<le> score s")
  case True
  then obtain A where "upgradeAuto s =
           s\<lparr>score := score s - autoClickCost s, autoClickers := autoClickers s + 1,
             autoClickCost := of_int \<lfloor>autoClickCost s * (3 / 2)\<rfloor>,
             achievementsUnlocked := A\<rparr>"
    using upgradeAuto_eq [of s] by blast
  with assms show ?thesis by (simp add: session_inv_def)
next
  case False
  with assms show ?thesis by (simp add: upgradeAuto_def)
qed

lemma session_inv_upgradeMult:
  assumes "session_inv s"
  shows "session_inv (upgradeMult s)"
proof (cases "multiplierCost s \<le> score s")
  case True
  then obtain A where "upgradeMult s =
           s\<lparr>score := score s - multiplierCost s, multiplier := multiplier s + 1,
             multiplierCost := of_int \<lfloor>multiplierCost s * 2\<rfloor>,
             achievementsUnlocked := A\<rparr>"
    using upgradeMult_eq [of s] by blast
  with assms show ?thesis by (simp add: session_inv_def)
next
  case False
  with assms show ?thesis by (simp add: upgradeMult_def)
qed

lemma session_inv_upgradeCritChance:
  assumes "session_inv s"
  shows "session_inv (upgradeCritChance s)"
proof (cases "critChanceCost s \<le> score s")
  case True
  with assms show ?thesis by (simp add: upgradeCritChance_eq session_inv_def min_def)
next
  case False
  with assms show ?thesis by (simp add: upgradeCritChance_def)
qed

lemma session_inv_upgradeCritPower:
  assumes "session_inv s"
  shows "session_inv (upgradeCritPower s)"
proof (cases "critPowerCost s \<le> score s")
  case True
  with assms show ?thesis by (simp add: upgradeCritPower_eq session_inv_def min_def)
next
  case False
  with assms show ?thesis by (simp add: upgradeCritPower_def)
qed

lemma session_inv_upgradeTempBoost:
  assumes "session_inv s"
  shows "session_inv (upgradeTempBoost now s)"
  using assms by (simp add: upgradeTempBoost_def session_inv_def)

lemma session_inv_purchase:
  assumes "session_inv s"
  shows "session_inv (purchase k now s)"
  using assms
  by (cases k)
     (simp_all add: session_inv_upgradeAuto session_inv_upgradeMult
        session_inv_upgradeCritChance session_inv_upgradeCritPower
        session_inv_upgradeTempBoost)

lemma session_inv_doPrestige:
  assumes "session_inv s"
  shows "session_inv (doPrestige c s)"
proof (cases "score s < prestigeCost_or_default s \<or> \<not> c")
  case True
  with assms show ?thesis by (simp only: doPrestige_refused)
next
  case False
  then have ok: "prestigeCost_or_default s \<le> score s" "c" by auto
  from assms have "20000 \<le> prestigeCost s" by (simp add: session_inv_def)
  then have "prestigeCost_or_default s = prestigeCost s"
    by (auto simp: prestigeCost_or_default_def)
  moreover from \<open>20000 \<le> prestigeCost s\<close> have "(20000::rat) \<le> of_int \<lfloor>prestigeCost s * 2\<rfloor>"
  proof -
    have "(20000::int) \<le> \<lfloor>prestigeCost s * 2\<rfloor>"
      using \<open>20000 \<le> prestigeCost s\<close> by (simp add: le_floor_iff)
    then have "of_int 20000 \<le> (of_int \<lfloor>prestigeCost s * 2\<rfloor> :: rat)"
      by (simp only: of_int_le_iff)
    then show ?thesis by simp
  qed
  ultimately show ?thesis
    using assms by (simp add: doPrestige_done [OF ok] session_inv_def)
qed

lemma session_inv_startTimed:
  assumes "session_inv s"
  shows "session_inv (startTimed s)"
  using assms by (simp add: startTimed_def unlockAchievement_eq session_inv_def)

lemma session_inv_timedTick:
  assumes "session_inv s"
  shows "session_inv (timedTick s)"
  using assms by (simp add: timedTick_def Let_def unlockAchievement_eq session_inv_def)

lemma session_inv_autoTick:
  assumes "session_inv s"
  shows "session_inv (autoTick now s)"
  using assms by (simp add: autoTick_def Let_def unlockAchievement_eq session_inv_def)

lemma session_inv_bonusClick:
  assumes "session_inv s"
  shows "session_inv (bonusClick r s)"
  using assms by (simp add: bonusClick_def Let_def session_inv_def)

lemma session_inv_dailyTick:
  assumes "session_inv s"
  shows "session_inv (dailyTick now s)"
  using assms by (simp add: dailyTick_def Let_def unlockAchievement_eq session_inv_def)

lemma session_inv_ensureDaily:
  assumes "session_inv (st w)"
  shows "session_inv (st (ensureDaily f today r1 r2 w))"
  using assms by (simp add: ensureDaily_def session_inv_def)

lemma session_inv_startDaily:
  assumes "session_inv (st w)"
  shows "session_inv (st (startDaily today now r1 r2 w))"
proof -
  have "session_inv (st (ensureDaily False today r1 r2 w))"
    using assms by (rule session_inv_ensureDaily)
  then show ?thesis
    by (simp add: startDaily_def Let_def unlockAchievement_eq session_inv_def)
qed

lemma session_inv_exec:
  assumes "session_inv (st w)"
  shows "session_inv (st (exec e w))"
  using assms
  by (cases e)
     (simp_all add: session_inv_click session_inv_purchase session_inv_doPrestige
        session_inv_startTimed session_inv_timedTick session_inv_autoTick
        session_inv_bonusClick session_inv_dailyTick session_inv_ensureDaily
        session_inv_startDaily Let_def)

lemma session_inv_fold:
  assumes "session_inv (st w)"
  shows "session_inv (st (fold exec evs w))"
  using assms by (induction evs arbitrary: w) (simp_all add: session_inv_exec)

lemma session_inv_run: "session_inv (st (run evs (initial_world dk ds)))"
  unfolding run_def
  by (rule session_inv_fold) (simp add: initial_world_def session_inv_initial)

section \<open>The effect of a prestige\<close>

text \<open>
  Claim C3, as the code has it. Take any state whose prestige cost is not zero. A
  confirmed prestige with \<open>score \<ge> prestigeCost\<close> lowers the score by exactly the old
  cost, adds one to the prestige count and ten to the bonus, sets the cost to
  \<open>floor (old cost * 2)\<close>, and resets \<open>totalClicks = 0\<close>, \<open>autoClickers = 0\<close>,
  \<open>multiplier = 1\<close>, \<open>multiplierCost = 1000\<close>, \<open>critChance = 0.10\<close>, \<open>critPower = 10\<close>,
  \<open>critChanceCost = 2000\<close>, \<open>critPowerCost = 3000\<close> and the boost flag. In every state,
  zero cost or not, a prestige with \<open>score < prestigeCost\<close> changes nothing.
\<close>

theorem doPrestige_effect:
  "(prestigeCost s \<noteq> 0 \<and> prestigeCost s \<le> score s \<and> confirmed \<longrightarrow>
        score (doPrestige confirmed s) = score s - prestigeCost s
        \<and> prestigeCount (doPrestige confirmed s) = prestigeCount s + 1
        \<and> prestigeBonus (doPrestige confirmed s) = prestigeBonus s + 10
        \<and> prestigeCost (doPrestige confirmed s) = of_int \<lfloor>prestigeCost s * 2\<rfloor>
        \<and> totalClicks (doPrestige confirmed s) = 0
        \<and> autoClickers (doPrestige confirmed s) = 0
        \<and> multiplier (doPrestige confirmed s) = 1
        \<and> multiplierCost (doPrestige confirmed s) = 1000
        \<and> critChance (doPrestige confirmed s) = 10 / 100
        \<and> critPower (doPrestige confirmed s) = 10
        \<and> critChanceCost (doPrestige confirmed s) = 2000
        \<and> critPowerCost (doPrestige confirmed s) = 3000
        \<and> \<not> tempBoostActive (doPrestige confirmed s))
   \<and> (score s < prestigeCost s \<longrightarrow> doPrestige confirmed s = s)"
proof (rule conjI)
  show "score s < prestigeCost s \<longrightarrow> doPrestige confirmed s = s"
  proof
    assume low: "score s < prestigeCost s"
    have "score s < prestigeCost_or_default s"
    proof (cases "prestigeCost s = 0")
      case True
      with low show ?thesis by (simp add: prestigeCost_or_default_def)
    next
      case False
      with low show ?thesis by (simp add: prestigeCost_or_default_def)
    qed
    then show "doPrestige confirmed s = s" by (simp add: doPrestige_refused)
  qed
next
  show "prestigeCost s \<noteq> 0 \<and> prestigeCost s \<le> score s \<and> confirmed \<longrightarrow>
        score (doPrestige confirmed s) = score s - prestigeCost s
        \<and> prestigeCount (doPrestige confirmed s) = prestigeCount s + 1
        \<and> prestigeBonus (doPrestige confirmed s) = prestigeBonus s + 10
        \<and> prestigeCost (doPrestige confirmed s) = of_int \<lfloor>prestigeCost s * 2\<rfloor>
        \<and> totalClicks (doPrestige confirmed s) = 0
        \<and> autoClickers (doPrestige confirmed s) = 0
        \<and> multiplier (doPrestige confirmed s) = 1
        \<and> multiplierCost (doPrestige confirmed s) = 1000
        \<and> critChance (doPrestige confirmed s) = 10 / 100
        \<and> critPower (doPrestige confirmed s) = 10
        \<and> critChanceCost (doPrestige confirmed s) = 2000
        \<and> critPowerCost (doPrestige confirmed s) = 3000
        \<and> \<not> tempBoostActive (doPrestige confirmed s)"
  proof
    assume h: "prestigeCost s \<noteq> 0 \<and> prestigeCost s \<le> score s \<and> confirmed"
    then have same: "prestigeCost_or_default s = prestigeCost s"
      by (simp add: prestigeCost_or_default_def)
    from h same have "prestigeCost_or_default s \<le> score s" and "confirmed" by simp_all
    from doPrestige_done [OF this] same
    show "score (doPrestige confirmed s) = score s - prestigeCost s
        \<and> prestigeCount (doPrestige confirmed s) = prestigeCount s + 1
        \<and> prestigeBonus (doPrestige confirmed s) = prestigeBonus s + 10
        \<and> prestigeCost (doPrestige confirmed s) = of_int \<lfloor>prestigeCost s * 2\<rfloor>
        \<and> totalClicks (doPrestige confirmed s) = 0
        \<and> autoClickers (doPrestige confirmed s) = 0
        \<and> multiplier (doPrestige confirmed s) = 1
        \<and> multiplierCost (doPrestige confirmed s) = 1000
        \<and> critChance (doPrestige confirmed s) = 10 / 100
        \<and> critPower (doPrestige confirmed s) = 10
        \<and> critChanceCost (doPrestige confirmed s) = 2000
        \<and> critPowerCost (doPrestige confirmed s) = 3000
        \<and> \<not> tempBoostActive (doPrestige confirmed s)"
      by simp
  qed
qed

theorem doPrestige_effect_witness:
  "doPrestige True initial_state = initial_state
   \<and> score (doPrestige True (initial_state\<lparr>score := 20979\<rparr>)) = 979
   \<and> prestigeCount (doPrestige True (initial_state\<lparr>score := 20979\<rparr>)) = 1
   \<and> prestigeBonus (doPrestige True (initial_state\<lparr>score := 20979\<rparr>)) = 10
   \<and> prestigeCost (doPrestige True (initial_state\<lparr>score := 20979\<rparr>)) = 40000
   \<and> critPower (doPrestige True (initial_state\<lparr>score := 20979\<rparr>)) = 10"
proof -
  have "doPrestige True initial_state = initial_state"
    using doPrestige_effect [of initial_state True] by (simp add: initial_state_def)
  moreover have "score (doPrestige True (initial_state\<lparr>score := 20979\<rparr>)) = 979
   \<and> prestigeCount (doPrestige True (initial_state\<lparr>score := 20979\<rparr>)) = 1
   \<and> prestigeBonus (doPrestige True (initial_state\<lparr>score := 20979\<rparr>)) = 10
   \<and> prestigeCost (doPrestige True (initial_state\<lparr>score := 20979\<rparr>)) = 40000
   \<and> critPower (doPrestige True (initial_state\<lparr>score := 20979\<rparr>)) = 10"
    using doPrestige_effect [of "initial_state\<lparr>score := 20979\<rparr>" True]
    by (simp add: initial_state_def)
  ultimately show ?thesis by blast
qed

text \<open>
  Claim C3 as the specification states it, for whatever cost the state holds, fails when
  the cost in memory is zero, the case the handler's \<^verbatim>\<open>|| 20000\<close> is written for. With
  cost 0 and score 20000 the score covers the cost, but the next cost is 40000 and not
  \<open>floor (0 * 2) = 0\<close>; with cost 0 and score 100 the score covers the cost as well, but
  the prestige is refused and the count stays as it was.
\<close>

theorem doPrestige_zero_cost_counterexample:
  "prestigeCost (initial_state\<lparr>prestigeCost := 0, score := 20000\<rparr>)
     \<le> score (initial_state\<lparr>prestigeCost := 0, score := 20000\<rparr>)
   \<and> prestigeCost (doPrestige True (initial_state\<lparr>prestigeCost := 0, score := 20000\<rparr>))
       \<noteq> of_int \<lfloor>prestigeCost (initial_state\<lparr>prestigeCost := 0, score := 20000\<rparr>) * 2\<rfloor>
   \<and> prestigeCost (initial_state\<lparr>prestigeCost := 0, score := 100\<rparr>)
     \<le> score (initial_state\<lparr>prestigeCost := 0, score := 100\<rparr>)
   \<and> prestigeCount (doPrestige True (initial_state\<lparr>prestigeCost := 0, score := 100\<rparr>))
       \<noteq> prestigeCount (initial_state\<lparr>prestigeCost := 0, score := 100\<rparr>) + 1"
  by (simp add: doPrestige_def prestigeCost_or_default_def Let_def unlockAchievement_eq
        initial_state_def)

section \<open>The caps on critical chance and critical power\<close>

text \<open>
  Claim C6. In every state that a session reaches from the default state, whatever was
  bought on the way, \<open>critChance \<le> 0.5\<close> and \<open>critPower \<le> 50\<close>, and both crit costs are
  whole numbers, so that \<open>floor (cost * 2)\<close> is the double of the cost. A purchase of
  critical chance or critical power made at the cap (in any state \<open>s\<close>) is accepted: the
  cost is taken off the score, the next cost is \<open>floor (cost * 2)\<close>, and the stat stays
  at its cap.
\<close>

theorem crit_caps:
  "critChance (st (run evs (initial_world dk ds))) \<le> 1 / 2
   \<and> critPower (st (run evs (initial_world dk ds))) \<le> 50
   \<and> of_int \<lfloor>critChanceCost (st (run evs (initial_world dk ds))) * 2\<rfloor>
       = 2 * critChanceCost (st (run evs (initial_world dk ds)))
   \<and> of_int \<lfloor>critPowerCost (st (run evs (initial_world dk ds))) * 2\<rfloor>
       = 2 * critPowerCost (st (run evs (initial_world dk ds)))
   \<and> (critChance s = 1 / 2 \<and> critChanceCost s \<le> score s \<longrightarrow>
        score (upgradeCritChance s) = score s - critChanceCost s
        \<and> critChanceCost (upgradeCritChance s) = of_int \<lfloor>critChanceCost s * 2\<rfloor>
        \<and> critChance (upgradeCritChance s) = 1 / 2)
   \<and> (critPower s = 50 \<and> critPowerCost s \<le> score s \<longrightarrow>
        score (upgradeCritPower s) = score s - critPowerCost s
        \<and> critPowerCost (upgradeCritPower s) = of_int \<lfloor>critPowerCost s * 2\<rfloor>
        \<and> critPower (upgradeCritPower s) = 50)"
proof -
  have inv: "session_inv (st (run evs (initial_world dk ds)))" by (rule session_inv_run)
  then have "critChance (st (run evs (initial_world dk ds))) \<le> 1 / 2"
    and "critPower (st (run evs (initial_world dk ds))) \<le> 50"
    by (simp_all add: session_inv_def)
  moreover from inv have "is_whole (critChanceCost (st (run evs (initial_world dk ds))))"
    and "is_whole (critPowerCost (st (run evs (initial_world dk ds))))"
    by (simp_all add: session_inv_def)
  then have "of_int \<lfloor>critChanceCost (st (run evs (initial_world dk ds))) * 2\<rfloor>
       = 2 * critChanceCost (st (run evs (initial_world dk ds)))"
    and "of_int \<lfloor>critPowerCost (st (run evs (initial_world dk ds))) * 2\<rfloor>
       = 2 * critPowerCost (st (run evs (initial_world dk ds)))"
    by (simp_all only: is_whole_double)
  moreover have "score (upgradeCritChance s) = score s - critChanceCost s
        \<and> critChanceCost (upgradeCritChance s) = of_int \<lfloor>critChanceCost s * 2\<rfloor>
        \<and> critChance (upgradeCritChance s) = 1 / 2"
    if "critChance s = 1 / 2 \<and> critChanceCost s \<le> score s"
    using that by (simp add: upgradeCritChance_eq)
  moreover have "score (upgradeCritPower s) = score s - critPowerCost s
        \<and> critPowerCost (upgradeCritPower s) = of_int \<lfloor>critPowerCost s * 2\<rfloor>
        \<and> critPower (upgradeCritPower s) = 50"
    if "critPower s = 50 \<and> critPowerCost s \<le> score s"
    using that by (simp add: upgradeCritPower_eq)
  ultimately show ?thesis by blast
qed

theorem crit_caps_witness:
  "critChance (st (run [BonusClick (999 / 1000), BonusClick (999 / 1000),
       BonusClick (999 / 1000), Purchase CritChance 0] (initial_world None None))) \<le> 1 / 2
   \<and> critChance (upgradeCritChance (initial_state\<lparr>critChance := 1 / 2, score := 2500\<rparr>))
       = 1 / 2
   \<and> score (upgradeCritChance (initial_state\<lparr>critChance := 1 / 2, score := 2500\<rparr>)) = 500
   \<and> critChanceCost (upgradeCritChance (initial_state\<lparr>critChance := 1 / 2, score := 2500\<rparr>))
       = 4000
   \<and> critPower (upgradeCritPower (initial_state\<lparr>critPower := 50, score := 3000\<rparr>)) = 50
   \<and> score (upgradeCritPower (initial_state\<lparr>critPower := 50, score := 3000\<rparr>)) = 0
   \<and> critPowerCost (upgradeCritPower (initial_state\<lparr>critPower := 50, score := 3000\<rparr>))
       = 6000"
  using crit_caps [of "[BonusClick (999 / 1000), BonusClick (999 / 1000),
       BonusClick (999 / 1000), Purchase CritChance 0]" None None
       "initial_state\<lparr>critChance := 1 / 2, score := 2500\<rparr>"]
    crit_caps [of "[]" None None "initial_state\<lparr>critPower := 50, score := 3000\<rparr>"]
  by (simp add: initial_state_def)

section \<open>The daily challenge is never both active and claimed\<close>

text \<open>
  Claim C9. Starting from the default state, whatever the store holds under the two
  daily keys, after any sequence of session events (among them starting the daily
  challenge, the daily tick and the regeneration of the challenge), \<open>daily.active\<close> and
  \<open>daily.claimedToday\<close> are never both true.
\<close>

theorem daily_never_active_and_claimed:
  "\<not> (active (daily (st (run evs (initial_world dk ds))))
      \<and> claimedToday (daily (st (run evs (initial_world dk ds)))))"
  using session_inv_run [of evs dk ds] by (simp add: session_inv_def)

section \<open>Loading a save without a prestige cost\<close>

text \<open>The load always returns: whatever the \<^verbatim>\<open>try\<close> block throws is caught. With nothing
  stored, or a text that does not parse, the state is left as it is.\<close>

lemma loadPersisted_returns: "\<exists>s'. loadPersisted page_ok data s = Inr s'"
  by (cases data) (auto simp: loadPersisted_def split: sum.splits)

lemma loadPersisted_nothing_to_load:
  "loadPersisted page_ok NoData s = Inr s" and "loadPersisted page_ok Malformed s = Inr s"
  by (simp_all add: loadPersisted_def load_try_def)




section \<open>Boost expiry followed by a daily success\<close>

text \<open>
  The boost expiry (in the auto-click loop), the daily tick and the timed countdown are
  three timer callbacks of their own; the code does not call one from another. When the
  auto-click loop runs first and the daily tick next, at the same time \<open>now\<close>, a daily
  success switches on again the boost that the expiry has just switched off.
\<close>

lemma expiry_then_daily_success:
  assumes "tempBoostActive s" and "now > tempBoostEnd s"
    and "active (daily s)" and "target (daily s) \<le> score s" and "\<not> claimedToday (daily s)"
    and "autoClickers s = 0"
  shows "\<not> tempBoostActive (autoTick now s)
     \<and> tempBoostActive (dailyTick now (autoTick now s))
     \<and> tempBoostEnd (dailyTick now (autoTick now s)) = now + 600000"
  using assms by (simp add: autoTick_def dailyTick_def Let_def unlockAchievement_eq)

section \<open>The throttled save can write twice within a second\<close>

text \<open>What one call of \<^verbatim>\<open>throttlePersist\<close> does, case by case.\<close>

lemma throttlePersist_immediate:
  assumes "now - lastPersist p > PERSIST_THROTTLE_MS"
  shows "throttlePersist now p = p\<lparr>lastPersist := now, writes := now # writes p\<rparr>"
  using assms by (simp add: throttlePersist_def)

lemma throttlePersist_deferred:
  assumes "now - lastPersist p \<le> PERSIST_THROTTLE_MS" and "\<not> pendingPersist p"
  shows "throttlePersist now p =
           p\<lparr>pendingPersist := True, timerDue := Some (now + PERSIST_THROTTLE_MS)\<rparr>"
  using assms by (simp add: throttlePersist_def)

lemma throttlePersist_already_pending:
  assumes "now - lastPersist p \<le> PERSIST_THROTTLE_MS" and "pendingPersist p"
  shows "throttlePersist now p = p"
  using assms by (simp add: throttlePersist_def)

text \<open>
  Claim C7 does not hold of the code. The deferred write is set 1000 ms after the
  request that scheduled it, not at the end of the window opened by the last write, and
  a request that finds the window elapsed writes at once even while a deferred write is
  pending. With saves requested at 5000, 5900 and 6001 ms the first is written at once,
  the second schedules the timeout for 6900, the third is written at once at 6001, and
  the timeout writes again at 6900: two writes 899 ms apart.
\<close>

theorem throttlePersist_two_writes_within_window:
  "feasible 0 initial_persister [Save 5000, Save 5900, Save 6001, Timer 6900]
   \<and> writes (fold pexec [Save 5000, Save 5900, Save 6001, Timer 6900] initial_persister)
       = [6900, 6001, 5000]"
  by (simp add: initial_persister_def throttlePersist_def persistTimer_def
        PERSIST_THROTTLE_MS_def)

end
